theory Spec2Isabelle
  imports Main "HOL-Library.Word"
begin

section \<open>The user evict-leader scheduler plugin\<close>

text \<open>
  A shallow embedding of the evict-leader scheduler plugin (package \<open>main\<close>, scheduler
  name \<open>user-evict-leader-scheduler\<close>): its configuration object, the lifecycle hooks
  of the scheduler and the three HTTP handlers. Go methods that mutate their receiver
  return the receiver's new value; Go errors are values of type \<open>error\<close>; the
  collaborators the plugin only calls (cluster, storage, operator controller, the
  standard library) are either modelled here from their documented behaviour or taken
  as parameters.
\<close>

subsection \<open>Values\<close>

type_synonym u64 = "64 word"

text \<open>\<open>keyutil.KeyRange\<close>: two byte strings. \<open>NewKeyRange\<close> copies its two arguments.\<close>

record KeyRange =
  StartKey :: string
  EndKey :: string

definition NewKeyRange :: "string \<Rightarrow> string \<Rightarrow> KeyRange" where
  "NewKeyRange startKey endKey = \<lparr>StartKey = startKey, EndKey = endKey\<rparr>"

text \<open>
  Go error values. \<open>ErrorsNew msg\<close> is \<open>errors.New(msg)\<close>, \<open>WithStack e\<close> is
  \<open>errors.WithStack(e)\<close>; \<open>NumErrorSyntax\<close> and \<open>NumErrorRange\<close> are the two
  \<open>*strconv.NumError\<close> values of \<open>ParseUint\<close> (with the offending input),
  \<open>EscapeError\<close> is \<open>url.EscapeError\<close> (with the offending fragment).
\<close>

datatype error =
    ErrorsNew string
  | WithStack error
  | NumErrorSyntax string
  | NumErrorRange string
  | EscapeError string

subsection \<open>Standard library functions the plugin calls\<close>

text \<open>
  \<open>strconv.ParseUint(s, 10, 64)\<close>: the empty string is a syntax error; the bytes are
  read left to right, a byte that is not a decimal digit is a syntax error, and a value
  that leaves the 64-bit range is a range error (reported at the digit where it
  happens). No sign and no underscore is accepted in base 10.
\<close>

definition is_digit :: "char \<Rightarrow> bool" where
  "is_digit c = (48 \<le> (of_char c :: nat) \<and> (of_char c :: nat) \<le> 57)"

definition digit_val :: "char \<Rightarrow> nat" where
  "digit_val c = of_char c - 48"

fun parse_loop :: "string \<Rightarrow> nat \<Rightarrow> string \<Rightarrow> error + nat" where
  "parse_loop s0 n [] = Inr n"
| "parse_loop s0 n (c # cs) =
     (if \<not> is_digit c then Inl (NumErrorSyntax s0)
      else if 2 ^ 64 \<le> n * 10 then Inl (NumErrorRange s0)
      else if 2 ^ 64 \<le> n * 10 + digit_val c then Inl (NumErrorRange s0)
      else parse_loop s0 (n * 10 + digit_val c) cs)"

definition ParseUint :: "string \<Rightarrow> error + u64" where
  "ParseUint s =
     (if s = [] then Inl (NumErrorSyntax s)
      else (case parse_loop s 0 s of
              Inl e \<Rightarrow> Inl e
            | Inr n \<Rightarrow> Inr (word_of_nat n)))"

text \<open>\<open>strconv.FormatUint(id, 10)\<close>: the decimal digits, most significant first.\<close>

fun digits10 :: "nat \<Rightarrow> string" where
  "digits10 n =
     (if n < 10 then [char_of (48 + n)]
      else digits10 (n div 10) @ [char_of (48 + n mod 10)])"

declare digits10.simps [simp del]

definition FormatUint :: "u64 \<Rightarrow> string" where
  "FormatUint w = digits10 (unat w)"

text \<open>
  \<open>url.QueryUnescape\<close>: \<open>%XX\<close> with two hexadecimal digits becomes the byte
  \<open>0xXX\<close>, \<open>+\<close> becomes a space, every other byte is copied; a \<open>%\<close> that is not
  followed by two hexadecimal digits is an \<open>EscapeError\<close> carrying at most the three
  bytes from the \<open>%\<close> on. The first malformed escape from the left is the one reported.
\<close>

definition ishex :: "char \<Rightarrow> bool" where
  "ishex c =
     (let n = (of_char c :: nat) in
      (48 \<le> n \<and> n \<le> 57) \<or> (97 \<le> n \<and> n \<le> 102) \<or> (65 \<le> n \<and> n \<le> 70))"

definition unhex :: "char \<Rightarrow> nat" where
  "unhex c =
     (let n = (of_char c :: nat) in
      if 48 \<le> n \<and> n \<le> 57 then n - 48
      else if 97 \<le> n \<and> n \<le> 102 then n - 97 + 10
      else if 65 \<le> n \<and> n \<le> 70 then n - 65 + 10
      else 0)"

fun QueryUnescape :: "string \<Rightarrow> error + string" where
  "QueryUnescape [] = Inr []"
| "QueryUnescape (c # cs) =
     (if c = CHR ''%'' then
        (case cs of
           h1 # h2 # rest \<Rightarrow>
             (if ishex h1 \<and> ishex h2 then
                (case QueryUnescape rest of
                   Inl e \<Rightarrow> Inl e
                 | Inr t \<Rightarrow> Inr (char_of (unhex h1 * 16 + unhex h2) # t))
              else Inl (EscapeError (take 3 (c # cs))))
         | _ \<Rightarrow> Inl (EscapeError (take 3 (c # cs))))
      else
        (case QueryUnescape cs of
           Inl e \<Rightarrow> Inl e
         | Inr t \<Rightarrow> Inr ((if c = CHR ''+'' then CHR '' '' else c) # t)))"

subsection \<open>The configuration\<close>

text \<open>
  \<open>getKeyRanges\<close>: the loop consumes the arguments two at a time while more than one
  is left, decoding both and appending the pair; a single leftover argument is never
  looked at. An empty result is replaced by the one whole-keyspace range.
\<close>

fun getKeyRanges_loop :: "string list \<Rightarrow> KeyRange list \<Rightarrow> error + KeyRange list" where
  "getKeyRanges_loop (a0 # a1 # rest) ranges =
     (case QueryUnescape a0 of
        Inl err \<Rightarrow> Inl err
      | Inr startKey \<Rightarrow>
          (case QueryUnescape a1 of
             Inl err \<Rightarrow> Inl err
           | Inr endKey \<Rightarrow> getKeyRanges_loop rest (ranges @ [NewKeyRange startKey endKey])))"
| "getKeyRanges_loop args ranges = Inr ranges"

definition getKeyRanges :: "string list \<Rightarrow> error + KeyRange list" where
  "getKeyRanges args =
     (case getKeyRanges_loop args [] of
        Inl err \<Rightarrow> Inl err
      | Inr ranges \<Rightarrow>
          (if length ranges = 0 then Inr [NewKeyRange [] []] else Inr ranges))"

text \<open>
  The collaborators' state, as far as the plugin can change it. The cluster is
  represented by the pause and resume calls made to it so far (oldest first); the
  storage by what was last saved under each scheduler name and by the number of save
  attempts. The bytes that \<open>schedulers.EncodeConfig\<close> produces are represented by
  the mapping they encode (the only exported field of the configuration).
\<close>

datatype direction = In | Out

datatype call =
    Pause u64 direction
  | Resume u64 direction

type_synonym cluster = "call list"

type_synonym targets = "u64 \<rightharpoonup> KeyRange list"

record storage =
  saved :: "string \<rightharpoonup> targets"
  attempts :: nat

text \<open>
  \<open>evictLeaderSchedulerConfig\<close>. The fields \<open>storage\<close> and \<open>cluster\<close> hold the
  state of the objects the Go fields point to. The lock \<open>mu\<close> is not a field: every
  function here runs alone, so a call for the lock gets through at once, except where a
  function asks for the lock while it holds it itself (see \<open>deleteConfig\<close>).
\<close>

record evictLeaderSchedulerConfig =
  storage :: storage
  StoreIDWitRanges :: targets
  cluster :: cluster

text \<open>
  \<open>BuildWithArgs\<close> mutates its receiver and returns an error or nil: the model
  returns the error (if any) and the receiver after the call.
\<close>

definition BuildWithArgs ::
  "evictLeaderSchedulerConfig \<Rightarrow> string list \<Rightarrow> error option \<times> evictLeaderSchedulerConfig" where
  "BuildWithArgs conf args =
     (if length args < 1 then (Some (ErrorsNew ''should specify the store-id''), conf)
      else (case ParseUint (hd args) of
              Inl err \<Rightarrow> (Some (WithStack err), conf)
            | Inr sid \<Rightarrow>
                (case getKeyRanges (tl args) of
                   Inl err \<Rightarrow> (Some (WithStack err), conf)
                 | Inr ranges \<Rightarrow>
                     (None, conf\<lparr>StoreIDWitRanges := (StoreIDWitRanges conf)(sid \<mapsto> ranges)\<rparr>))))"


definition EvictLeaderName :: string where
  "EvictLeaderName = ''user-evict-leader-scheduler''"

definition noStoreInSchedulerInfo :: string where
  "noStoreInSchedulerInfo = ''No store in user-evict-leader-scheduler-config''"

definition userEvictLeaderScheduler :: string where
  "userEvictLeaderScheduler = ''user-evict-leader-scheduler''"

subsection \<open>Collaborators\<close>

text \<open>
  What the cluster and the storage answer is not decided by the plugin. The answers are
  a parameter: \<open>pause_result\<close> is the result of \<open>PauseLeaderTransfer\<close> given the calls
  made so far, \<open>encode_result\<close> the error (if any) of \<open>schedulers.EncodeConfig\<close>
  (here \<open>schedulers_EncodeConfig\<close>),
  \<open>save_result\<close> the error (if any) of \<open>SaveSchedulerConfig\<close> given the storage, the
  name and the data. A failed save leaves the saved data as it was.
  \<open>ResumeLeaderTransfer\<close> returns nothing.
\<close>

record env =
  pause_result :: "cluster \<Rightarrow> u64 \<Rightarrow> direction \<Rightarrow> error option"
  encode_result :: "targets \<Rightarrow> error option"
  save_result :: "storage \<Rightarrow> string \<Rightarrow> targets \<Rightarrow> error option"

definition PauseLeaderTransfer ::
  "env \<Rightarrow> cluster \<Rightarrow> u64 \<Rightarrow> direction \<Rightarrow> error option \<times> cluster" where
  "PauseLeaderTransfer e cl sid d = (pause_result e cl sid d, cl @ [Pause sid d])"

definition ResumeLeaderTransfer :: "cluster \<Rightarrow> u64 \<Rightarrow> direction \<Rightarrow> cluster" where
  "ResumeLeaderTransfer cl sid d = cl @ [Resume sid d]"

definition SaveSchedulerConfig ::
  "env \<Rightarrow> storage \<Rightarrow> string \<Rightarrow> targets \<Rightarrow> error option \<times> storage" where
  "SaveSchedulerConfig e st nm data =
     (case save_result e st nm data of
        Some err \<Rightarrow> (Some err, st\<lparr>attempts := attempts st + 1\<rparr>)
      | None \<Rightarrow> (None, st\<lparr>saved := (saved st)(nm \<mapsto> data), attempts := attempts st + 1\<rparr>))"

definition schedulers_EncodeConfig ::
  "env \<Rightarrow> evictLeaderSchedulerConfig \<Rightarrow> (error + targets) \<times> evictLeaderSchedulerConfig" where
  "schedulers_EncodeConfig e conf =
     (case encode_result e (StoreIDWitRanges conf) of
        Some err \<Rightarrow> (Inl err, conf)
      | None \<Rightarrow> (Inr (StoreIDWitRanges conf), conf))"

subsection \<open>Methods of the configuration\<close>

text \<open>
  \<open>Clone\<close> builds a new configuration that shares the map and leaves the other fields
  nil; they are represented by the empty collaborator states, and nothing is called
  through them.
\<close>

definition Clone ::
  "evictLeaderSchedulerConfig \<Rightarrow> evictLeaderSchedulerConfig \<times> evictLeaderSchedulerConfig" where
  "Clone conf =
     (\<lparr>storage = \<lparr>saved = Map.empty, attempts = 0\<rparr>,
        StoreIDWitRanges = StoreIDWitRanges conf,
        cluster = []\<rparr>, conf)"

definition Persist ::
  "env \<Rightarrow> evictLeaderSchedulerConfig \<Rightarrow> error option \<times> evictLeaderSchedulerConfig" where
  "Persist e conf =
     (case schedulers_EncodeConfig e conf of
        (Inl err, conf1) \<Rightarrow> (Some err, conf1)
      | (Inr data, conf1) \<Rightarrow>
          (case SaveSchedulerConfig e (storage conf1) EvictLeaderName data of
             (res, st) \<Rightarrow> (res, conf1\<lparr>storage := st\<rparr>)))"

text \<open>
  \<open>getRanges\<close>: reading a missing key of a Go map gives the nil slice and adds nothing,
  so the loop body does not run and the result is empty.
\<close>

definition getRanges ::
  "evictLeaderSchedulerConfig \<Rightarrow> u64 \<Rightarrow> string list \<times> evictLeaderSchedulerConfig" where
  "getRanges conf sid =
     (concat (map (\<lambda>r. [StartKey r, EndKey r])
                (case StoreIDWitRanges conf sid of None \<Rightarrow> [] | Some rs \<Rightarrow> rs)),
      conf)"

subsection \<open>The scheduler\<close>

datatype OpKind = OpLeader | OpRegion

datatype PriorityLevel = Low | Medium | High | Urgent

text \<open>
  The operator controller, as far as \<open>OperatorCount\<close> reads it, and the counter that
  \<open>operator.IncOperatorLimitCounter\<close> increments, one per scheduler type and operator
  kind.
\<close>

record controller =
  counts :: "OpKind \<Rightarrow> u64"

definition OperatorCount :: "controller \<Rightarrow> OpKind \<Rightarrow> u64" where
  "OperatorCount oc k = counts oc k"

type_synonym limit_counter = "string \<times> OpKind \<Rightarrow> nat"

definition IncOperatorLimitCounter :: "limit_counter \<Rightarrow> string \<Rightarrow> OpKind \<Rightarrow> limit_counter" where
  "IncOperatorLimitCounter m ty k = m((ty, k) := m (ty, k) + 1)"

text \<open>
  \<open>evictLeaderScheduler\<close>, with the fields of the embedded \<open>BaseScheduler\<close> that the
  plugin reads: the operator controller, the name and the type
  (\<open>GetName\<close> and \<open>GetType\<close> return them).
\<close>

record evictLeaderScheduler =
  OpController :: controller
  name :: string
  tp :: string
  conf :: evictLeaderSchedulerConfig

definition GetName :: "evictLeaderScheduler \<Rightarrow> string" where
  "GetName s = name s"

definition GetType :: "evictLeaderScheduler \<Rightarrow> string" where
  "GetType s = tp s"

definition newEvictLeaderScheduler ::
  "controller \<Rightarrow> evictLeaderSchedulerConfig \<Rightarrow> evictLeaderScheduler" where
  "newEvictLeaderScheduler opController c =
     \<lparr>OpController = opController, name = userEvictLeaderScheduler,
      tp = userEvictLeaderScheduler, conf = c\<rparr>"

text \<open>\<open>EncodeConfig\<close> of the scheduler encodes its configuration.\<close>

definition EncodeConfig ::
  "env \<Rightarrow> evictLeaderScheduler \<Rightarrow> (error + targets) \<times> evictLeaderScheduler" where
  "EncodeConfig e s =
     (case schedulers_EncodeConfig e (conf s) of (r, c) \<Rightarrow> (r, s\<lparr>conf := c\<rparr>))"

text \<open>
  Go visits the entries of a map in an order of the runtime's choosing. A loop over
  the map takes that order as an argument: a list of the map's entries, each key once.
\<close>

definition range_order :: "targets \<Rightarrow> (u64 \<times> KeyRange list) list \<Rightarrow> bool" where
  "range_order m kvs = (distinct (map fst kvs) \<and> map_of kvs = m)"

text \<open>
  \<open>PrepareConfig\<close>: the loop keeps the last error in \<open>res\<close> and goes on.
  \<open>CleanConfig\<close>: one resume per entry. Both act on the cluster they are given.
\<close>

fun PrepareConfig_loop ::
  "env \<Rightarrow> (u64 \<times> KeyRange list) list \<Rightarrow> error option \<Rightarrow> cluster \<Rightarrow> error option \<times> cluster" where
  "PrepareConfig_loop e [] res cl = (res, cl)"
| "PrepareConfig_loop e ((sid, rs) # kvs) res cl =
     (case PauseLeaderTransfer e cl sid In of
        (Some err, cl1) \<Rightarrow> PrepareConfig_loop e kvs (Some err) cl1
      | (None, cl1) \<Rightarrow> PrepareConfig_loop e kvs res cl1)"

text \<open>The results of the pause calls of \<open>PrepareConfig\<close>, in the order of the calls.\<close>

fun pause_results :: "env \<Rightarrow> (u64 \<times> KeyRange list) list \<Rightarrow> cluster \<Rightarrow> error option list" where
  "pause_results e [] cl = []"
| "pause_results e ((sid, rs) # kvs) cl =
     (case PauseLeaderTransfer e cl sid In of (r, cl1) \<Rightarrow> r # pause_results e kvs cl1)"

definition PrepareConfig ::
  "env \<Rightarrow> (u64 \<times> KeyRange list) list \<Rightarrow> evictLeaderScheduler \<Rightarrow> cluster \<Rightarrow>
     error option \<times> cluster \<times> evictLeaderScheduler" where
  "PrepareConfig e kvs s cl =
     (case PrepareConfig_loop e kvs None cl of (res, cl1) \<Rightarrow> (res, cl1, s))"

fun CleanConfig_loop :: "(u64 \<times> KeyRange list) list \<Rightarrow> cluster \<Rightarrow> cluster" where
  "CleanConfig_loop [] cl = cl"
| "CleanConfig_loop ((sid, rs) # kvs) cl = CleanConfig_loop kvs (ResumeLeaderTransfer cl sid In)"

definition CleanConfig ::
  "(u64 \<times> KeyRange list) list \<Rightarrow> evictLeaderScheduler \<Rightarrow> cluster \<Rightarrow>
     cluster \<times> evictLeaderScheduler" where
  "CleanConfig kvs s cl = (CleanConfig_loop kvs cl, s)"

text \<open>
  \<open>IsScheduleAllowed\<close>: the count and the limit are unsigned 64-bit integers; the
  limit is what \<open>cluster.GetSchedulerConfig().GetLeaderScheduleLimit()\<close> returns.
\<close>

definition IsScheduleAllowed ::
  "evictLeaderScheduler \<Rightarrow> u64 \<Rightarrow> limit_counter \<Rightarrow> bool \<times> limit_counter" where
  "IsScheduleAllowed s leaderScheduleLimit m =
     (let allowed = OperatorCount (OpController s) OpLeader < leaderScheduleLimit
      in if \<not> allowed then (allowed, IncOperatorLimitCounter m (GetType s) OpLeader)
         else (allowed, m))"

text \<open>
  \<open>Schedule\<close>. A transfer operator carries the scheduler's name, the region, the
  target store, the operator kind and a priority level. The cluster's answers during a
  tick are a parameter; they may be random and may depend on what was asked before, so
  the calls that draw from the cluster pass its state \<open>'g\<close> along.
  \<open>SelectOneRegion\<close> stands for the call with the pending and the down filter,
  \<open>FilterTargetRandomPick\<close> for the candidate chain
  \<open>NewCandidates(...).FilterTarget(...).RandomPick()\<close>.
\<close>

record Operator =
  desc :: string
  region_id :: u64
  target_store :: u64
  kind :: OpKind
  level :: PriorityLevel

definition SetPriorityLevel :: "Operator \<Rightarrow> PriorityLevel \<Rightarrow> Operator" where
  "SetPriorityLevel op l = op\<lparr>level := l\<rparr>"

record ('r, 's, 'g) sched_cluster =
  RandLeaderRegions :: "'g \<Rightarrow> u64 \<Rightarrow> KeyRange list \<Rightarrow> 'r list \<times> 'g"
  SelectOneRegion :: "'r list \<Rightarrow> 'r option"
  GetFollowerStores :: "'g \<Rightarrow> 'r \<Rightarrow> 's list"
  FilterTargetRandomPick :: "'g \<Rightarrow> 's list \<Rightarrow> 's option \<times> 'g"
  GetID :: "'s \<Rightarrow> u64"
  CreateTransferLeaderOperator ::
    "'g \<Rightarrow> string \<Rightarrow> 'r \<Rightarrow> u64 \<Rightarrow> OpKind \<Rightarrow> error + Operator"

type_synonym plan = unit

text \<open>
  The body of the loop for one entry of the map: \<open>None\<close> where the source says
  \<open>continue\<close>, the operator it appends otherwise.
\<close>

definition Schedule_step ::
  "('r, 's, 'g) sched_cluster \<Rightarrow> evictLeaderScheduler \<Rightarrow> u64 \<Rightarrow> KeyRange list \<Rightarrow> 'g \<Rightarrow>
     Operator option \<times> 'g" where
  "Schedule_step c s sid ranges g =
     (case RandLeaderRegions c g sid ranges of
        (regions, g1) \<Rightarrow>
          (case SelectOneRegion c regions of
             None \<Rightarrow> (None, g1)
           | Some region \<Rightarrow>
               (case FilterTargetRandomPick c g1 (GetFollowerStores c g1 region) of
                  (None, g2) \<Rightarrow> (None, g2)
                | (Some target, g2) \<Rightarrow>
                    (case CreateTransferLeaderOperator c g2 (GetName s) region
                            (GetID c target) OpLeader of
                       Inl err \<Rightarrow> (None, g2)
                     | Inr op \<Rightarrow> (Some (SetPriorityLevel op High), g2)))))"

fun Schedule_loop ::
  "('r, 's, 'g) sched_cluster \<Rightarrow> evictLeaderScheduler \<Rightarrow> (u64 \<times> KeyRange list) list \<Rightarrow>
     Operator list \<Rightarrow> 'g \<Rightarrow> Operator list \<times> 'g" where
  "Schedule_loop c s [] ops g = (ops, g)"
| "Schedule_loop c s ((sid, ranges) # kvs) ops g =
     (case Schedule_step c s sid ranges g of
        (None, g1) \<Rightarrow> Schedule_loop c s kvs ops g1
      | (Some op, g1) \<Rightarrow> Schedule_loop c s kvs (ops @ [op]) g1)"

definition Schedule ::
  "('r, 's, 'g) sched_cluster \<Rightarrow> (u64 \<times> KeyRange list) list \<Rightarrow> evictLeaderScheduler \<Rightarrow> 'g \<Rightarrow>
     (Operator list \<times> plan list) \<times> 'g \<times> evictLeaderScheduler" where
  "Schedule c kvs s g =
     (case Schedule_loop c s kvs [] g of (ops, g1) \<Rightarrow> ((ops, []), g1, s))"

text \<open>
  What each iteration of the loop of \<open>Schedule\<close> comes to, in the order of the visit:
  one entry per entry of the map.
\<close>

fun step_results ::
  "('r, 's, 'g) sched_cluster \<Rightarrow> evictLeaderScheduler \<Rightarrow> (u64 \<times> KeyRange list) list \<Rightarrow> 'g \<Rightarrow>
     Operator option list" where
  "step_results c s [] g = []"
| "step_results c s ((sid, ranges) # kvs) g =
     (case Schedule_step c s sid ranges g of
        (r, g1) \<Rightarrow> r # step_results c s kvs g1)"

subsection \<open>The HTTP handlers\<close>

text \<open>
  A response is the status code and the body handed to the renderer: \<open>ErrText e\<close> is
  the string \<open>e.Error()\<close>, \<open>ErrValue e\<close> the error value itself, \<open>Conf m\<close> a
  configuration.
\<close>

datatype body = Null | Str string | ErrText error | ErrValue error | Conf targets

record response =
  status :: nat
  body :: body

definition StatusOK :: nat where "StatusOK = 200"
definition StatusBadRequest :: nat where "StatusBadRequest = 400"
definition StatusInternalServerError :: nat where "StatusInternalServerError = 500"

text \<open>
  The decoded body of an update request, as the handler reads it: \<open>store_id\<close> is
  \<open>Some i\<close> when \<open>input["store_id"]\<close> holds a \<open>float64\<close>, with \<open>i\<close> its conversion
  to \<open>uint64\<close>; \<open>ranges\<close> is \<open>Some rs\<close> when \<open>input["ranges"]\<close> holds a
  \<open>[]string\<close>. (The JSON decoder stores an array as \<open>[]any\<close>, so a request that
  comes through \<open>ReadJSONRespondError\<close> has \<open>ranges = None\<close>.) A body that does not
  decode is answered before the handler reads anything and is not modelled.
\<close>

record update_input =
  store_id :: "u64 option"
  ranges :: "string list option"

text \<open>\<open>updateConfig\<close> from the line that reads \<open>input["ranges"]\<close> on.\<close>

definition updateConfig_build ::
  "env \<Rightarrow> evictLeaderSchedulerConfig \<Rightarrow> update_input \<Rightarrow> string list \<Rightarrow> bool \<Rightarrow> u64 \<Rightarrow>
     response \<times> evictLeaderSchedulerConfig" where
  "updateConfig_build e config input args0 exists sid =
     (case (case ranges input of
              Some rs \<Rightarrow> (args0 @ rs, config)
            | None \<Rightarrow>
                (if exists then (case getRanges config sid of (rs, config1) \<Rightarrow> (args0 @ rs, config1))
                 else (args0, config))) of
        (args, config1) \<Rightarrow>
          (case BuildWithArgs config1 args of
             (Some err, config2) \<Rightarrow>
               (\<lparr>status = StatusBadRequest, body = ErrText err\<rparr>,
                config2\<lparr>cluster := ResumeLeaderTransfer (cluster config2) sid In\<rparr>)
           | (None, config2) \<Rightarrow>
               (case Persist e config2 of
                  (Some err, config3) \<Rightarrow>
                    (\<lparr>status = StatusInternalServerError, body = ErrText err\<rparr>,
                     config3\<lparr>StoreIDWitRanges := (StoreIDWitRanges config3)(sid := None),
                             cluster := ResumeLeaderTransfer (cluster config3) sid In\<rparr>)
                | (None, config3) \<Rightarrow> (\<lparr>status = StatusOK, body = Null\<rparr>, config3))))"

text \<open>
  \<open>updateConfig\<close>: without a \<open>store_id\<close> the variables keep their zero values
  (\<open>id = 0\<close>, \<open>exists = false\<close>, no argument).
\<close>

definition updateConfig ::
  "env \<Rightarrow> evictLeaderSchedulerConfig \<Rightarrow> update_input \<Rightarrow>
     response \<times> evictLeaderSchedulerConfig" where
  "updateConfig e config input =
     (case store_id input of
        None \<Rightarrow> updateConfig_build e config input [] False 0
      | Some sid \<Rightarrow>
          (if StoreIDWitRanges config sid = None then
             (case PauseLeaderTransfer e (cluster config) sid In of
                (Some err, cl) \<Rightarrow>
                  (\<lparr>status = StatusInternalServerError, body = ErrText err\<rparr>,
                   config\<lparr>cluster := cl\<rparr>)
              | (None, cl) \<Rightarrow>
                  updateConfig_build e (config\<lparr>cluster := cl\<rparr>) input [FormatUint sid] False sid)
           else updateConfig_build e config input [FormatUint sid] True sid))"

definition listConfig ::
  "evictLeaderSchedulerConfig \<Rightarrow> response \<times> evictLeaderSchedulerConfig" where
  "listConfig config =
     (case Clone config of
        (c, config1) \<Rightarrow> (\<lparr>status = StatusOK, body = Conf (StoreIDWitRanges c)\<rparr>, config1))"

text \<open>
  The mutex \<open>mu\<close> of the configuration, as one handler sees it. \<open>syncutil.RWMutex\<close>
  is Go's \<open>sync.RWMutex\<close>, which is not reentrant: \<open>Lock\<close> waits while the mutex is
  held at all, \<open>RLock\<close> waits while it is held for writing. The result is the state
  of the mutex once the call has got through, and \<open>None\<close> where the call waits. A
  handler that waits for a mutex it holds itself is never woken: it does not return.
\<close>

datatype RWMutex = Unlocked | WriteLocked | ReadLocked nat

definition Lock :: "RWMutex \<Rightarrow> RWMutex option" where
  "Lock mu = (case mu of Unlocked \<Rightarrow> Some WriteLocked | WriteLocked \<Rightarrow> None | ReadLocked n \<Rightarrow> None)"

definition RLock :: "RWMutex \<Rightarrow> RWMutex option" where
  "RLock mu =
     (case mu of
        Unlocked \<Rightarrow> Some (ReadLocked 1)
      | WriteLocked \<Rightarrow> None
      | ReadLocked n \<Rightarrow> Some (ReadLocked (n + 1)))"

text \<open>
  \<open>Persist\<close> called by a handler while the mutex is in state \<open>mu\<close>: it starts with
  \<open>conf.mu.RLock()\<close>, and goes on as \<open>Persist\<close> above once that call has got through.
  \<open>None\<close>: the call does not return.
\<close>

definition Persist_holding ::
  "RWMutex \<Rightarrow> env \<Rightarrow> evictLeaderSchedulerConfig \<Rightarrow>
     (error option \<times> evictLeaderSchedulerConfig) option" where
  "Persist_holding mu e config =
     (case RLock mu of
        None \<Rightarrow> None
      | Some mu1 \<Rightarrow> Some (Persist e config))"

text \<open>
  \<open>deleteConfig\<close>, given the path parameter \<open>store_id\<close>. The handler takes
  \<open>handler.config.mu.Lock()\<close> (the mutex is free: the handler runs alone) and holds it
  until it returns; it calls \<open>Persist\<close> with the mutex held for writing. \<open>None\<close>: the
  handler does not return.
\<close>

definition deleteConfig ::
  "env \<Rightarrow> evictLeaderSchedulerConfig \<Rightarrow> string \<Rightarrow>
     (response \<times> evictLeaderSchedulerConfig) option" where
  "deleteConfig e config idStr =
     (case ParseUint idStr of
        Inl err \<Rightarrow> Some (\<lparr>status = StatusBadRequest, body = ErrText err\<rparr>, config)
      | Inr sid \<Rightarrow>
          (case Lock Unlocked of
             None \<Rightarrow> None
           | Some mu \<Rightarrow>
               (case StoreIDWitRanges config sid of
                  None \<Rightarrow>
                    Some (\<lparr>status = StatusInternalServerError,
                           body = ErrValue (ErrorsNew ''the config does not exist'')\<rparr>, config)
                | Some rs \<Rightarrow>
                    (case Persist_holding mu e
                            (config\<lparr>StoreIDWitRanges := (StoreIDWitRanges config)(sid := None),
                                    cluster := ResumeLeaderTransfer (cluster config) sid In\<rparr>) of
                       None \<Rightarrow> None
                     | Some (Some err, config1) \<Rightarrow>
                         (case PauseLeaderTransfer e (cluster config1) sid In of
                            (ignored, cl) \<Rightarrow>
                              Some (\<lparr>status = StatusInternalServerError, body = ErrText err\<rparr>,
                                    config1\<lparr>StoreIDWitRanges :=
                                               (StoreIDWitRanges config1)(sid \<mapsto> rs),
                                            cluster := cl\<rparr>))
                     | Some (None, config1) \<Rightarrow>
                         Some (\<lparr>status = StatusOK,
                                body = (if StoreIDWitRanges config1 = Map.empty
                                        then Str noStoreInSchedulerInfo else Null)\<rparr>,
                               config1)))))"

text \<open>
  The router of \<open>newEvictLeaderHandler\<close> for the two requests that change the
  configuration: \<open>POST /config\<close> with a decoded body, and
  \<open>DELETE /delete/{store_id}\<close> with the path parameter.
\<close>

datatype request = Update update_input | Delete string

definition serve ::
  "env \<Rightarrow> evictLeaderSchedulerConfig \<Rightarrow> request \<Rightarrow>
     (response \<times> evictLeaderSchedulerConfig) option" where
  "serve e config req =
     (case req of
        Update input \<Rightarrow> Some (updateConfig e config input)
      | Delete idStr \<Rightarrow> deleteConfig e config idStr)"

text \<open>
  A sequence of requests, each served once the one before has returned; the responses
  in order. \<open>None\<close>: one of the requests does not return.
\<close>

fun run ::
  "env \<Rightarrow> evictLeaderSchedulerConfig \<Rightarrow> request list \<Rightarrow>
     (response list \<times> evictLeaderSchedulerConfig) option" where
  "run e config [] = Some ([], config)"
| "run e config (req # reqs) =
     (case serve e config req of
        None \<Rightarrow> None
      | Some (resp, config1) \<Rightarrow>
          (case run e config1 reqs of
             None \<Rightarrow> None
           | Some (resps, config2) \<Rightarrow> Some (resp # resps, config2)))"

text \<open>A request is on store \<open>S\<close> when the store ID it carries is \<open>S\<close>.\<close>

definition on_store :: "u64 \<Rightarrow> request \<Rightarrow> bool" where
  "on_store S req =
     (case req of
        Update input \<Rightarrow> store_id input = Some S
      | Delete idStr \<Rightarrow> ParseUint idStr = Inr S)"

text \<open>
  The pause calls minus the resume calls that the cluster has received for the inbound
  leader transfers of store \<open>S\<close>.
\<close>

definition net_pauses :: "cluster \<Rightarrow> u64 \<Rightarrow> int" where
  "net_pauses cl S = int (count_list cl (Pause S In)) - int (count_list cl (Resume S In))"

text \<open>
  The pause call of a request is refused: the request is an update of a store that is
  not in the mapping (so \<open>updateConfig\<close> calls \<open>PauseLeaderTransfer\<close>) and the cluster
  answers with an error. \<open>pause_refusals\<close> counts the requests of a sequence whose
  pause call is refused, each in the configuration it is served in.
\<close>

definition pause_refused :: "env \<Rightarrow> evictLeaderSchedulerConfig \<Rightarrow> request \<Rightarrow> bool" where
  "pause_refused e config req =
     (case req of
        Update input \<Rightarrow>
          (case store_id input of
             None \<Rightarrow> False
           | Some sid \<Rightarrow>
               StoreIDWitRanges config sid = None \<and>
               pause_result e (cluster config) sid In \<noteq> None)
      | Delete idStr \<Rightarrow> False)"

fun pause_refusals :: "env \<Rightarrow> evictLeaderSchedulerConfig \<Rightarrow> request list \<Rightarrow> nat" where
  "pause_refusals e config [] = 0"
| "pause_refusals e config (req # reqs) =
     (if pause_refused e config req then 1 else 0) +
     (case serve e config req of
        None \<Rightarrow> 0
      | Some (resp, config1) \<Rightarrow> pause_refusals e config1 reqs)"

text \<open>\<open>present config S\<close> is 1 when \<open>S\<close> is in the targets mapping and 0 otherwise.\<close>

definition present :: "evictLeaderSchedulerConfig \<Rightarrow> u64 \<Rightarrow> int" where
  "present config S = (if StoreIDWitRanges config S \<noteq> None then 1 else 0)"

text \<open>
  A request as it arrives over HTTP: the JSON decoder stores an array as \<open>[]any\<close>, so
  the handler finds no \<open>[]string\<close> under \<open>ranges\<close>. \<open>sentinel_or_absent config S\<close>
  says that store \<open>S\<close> is not in the mapping or has only the whole-keyspace range.
\<close>

definition decoded :: "request \<Rightarrow> bool" where
  "decoded req = (case req of Update input \<Rightarrow> ranges input = None | Delete idStr \<Rightarrow> True)"

definition sentinel_or_absent :: "evictLeaderSchedulerConfig \<Rightarrow> u64 \<Rightarrow> bool" where
  "sentinel_or_absent config S =
     (StoreIDWitRanges config S = None \<or>
      StoreIDWitRanges config S = Some [\<lparr>StartKey = [], EndKey = []\<rparr>])"

section \<open>The standard library model: parsing what was formatted\<close>

lemma parse_loop_append:
  "parse_loop s0 n (xs @ ys) =
     (case parse_loop s0 n xs of Inl e \<Rightarrow> Inl e | Inr m \<Rightarrow> parse_loop s0 m ys)"
  by (induction xs arbitrary: n) simp_all

lemma digit_char:
  assumes "d < 10"
  shows "is_digit (char_of (48 + d))" and "digit_val (char_of (48 + d)) = d"
  using assms by (simp_all add: is_digit_def digit_val_def)

lemma digits10_nonempty: "digits10 n \<noteq> []"
  by (subst digits10.simps) simp

lemma parse_loop_digits10: "n < 2 ^ 64 \<Longrightarrow> parse_loop s0 0 (digits10 n) = Inr n"
proof (induction n rule: digits10.induct)
  case (1 n)
  show ?case
  proof (cases "n < 10")
    case True
    then show ?thesis
      by (subst digits10.simps) (simp add: digit_char)
  next
    case False
    have small: "n div 10 < 2 ^ 64"
      using "1.prems" by (simp add: less_le_trans [OF div_less_dividend])
    have ih: "parse_loop s0 0 (digits10 (n div 10)) = Inr (n div 10)"
      using "1.IH" [OF False small] .
    have d: "n mod 10 < 10" by simp
    have bound: "n div 10 * 10 + n mod 10 = n" by simp
    have b1: "\<not> 2 ^ 64 \<le> n div 10 * 10" using "1.prems" bound by linarith
    have b2: "\<not> 2 ^ 64 \<le> n div 10 * 10 + n mod 10" using "1.prems" bound by linarith
    show ?thesis
      using False ih b1 b2 bound
      by (subst digits10.simps) (simp add: parse_loop_append digit_char [OF d])
  qed
qed

text \<open>\<open>ParseUint\<close> reads back what \<open>FormatUint\<close> wrote.\<close>

lemma ParseUint_FormatUint: "ParseUint (FormatUint w) = Inr w"
proof -
  have "unat w < 2 ^ 64" using unsigned_less [of w] by simp
  then show ?thesis
    by (simp add: ParseUint_def FormatUint_def digits10_nonempty parse_loop_digits10)
qed

lemma parse5: "ParseUint ''5'' = Inr 5"
  by (simp add: ParseUint_def is_digit_def digit_val_def)

section \<open>Properties of the configuration\<close>

lemma getKeyRanges_short: "length rest \<le> 1 \<Longrightarrow> getKeyRanges rest = Inr [NewKeyRange [] []]"
proof (cases rest)
  case Nil
  then show ?thesis by (simp add: getKeyRanges_def)
next
  case (Cons a as)
  assume "length rest \<le> 1"
  with Cons have "as = []" by simp
  with Cons show ?thesis by (simp add: getKeyRanges_def)
qed

text \<open>
  C6. An argument list whose first element parses as a store ID and which supplies no
  complete start/end pair (nothing after the ID, or one leftover argument, which is
  never decoded) makes \<open>BuildWithArgs\<close> succeed and sets that store's range list to
  exactly one range with empty start key and empty end key.
\<close>

theorem BuildWithArgs_sentinel:
  assumes "ParseUint a = Inr S" and "length rest \<le> 1"
  shows "BuildWithArgs cfg (a # rest) =
           (None, cfg\<lparr>StoreIDWitRanges :=
                          (StoreIDWitRanges cfg)(S \<mapsto> [\<lparr>StartKey = [], EndKey = []\<rparr>])\<rparr>)"
  using assms by (simp add: BuildWithArgs_def getKeyRanges_short NewKeyRange_def)

theorem BuildWithArgs_sentinel_witness:
  "ParseUint ''5'' = Inr 5 \<and> length [''%zz''] \<le> 1 \<and>
   BuildWithArgs
     \<lparr>storage = \<lparr>saved = Map.empty, attempts = 0\<rparr>,
      StoreIDWitRanges = [5 \<mapsto> [\<lparr>StartKey = ''a'', EndKey = ''m''\<rparr>]], cluster = []\<rparr>
     [''5'', ''%zz'']
   = (None, \<lparr>storage = \<lparr>saved = Map.empty, attempts = 0\<rparr>,
             StoreIDWitRanges = [5 \<mapsto> [\<lparr>StartKey = [], EndKey = []\<rparr>]], cluster = []\<rparr>)"
proof -
  have l: "length [''%zz''] \<le> 1" by simp
  show ?thesis using parse5 l BuildWithArgs_sentinel [OF parse5 l] by simp
qed

text \<open>
  C9. \<open>BuildWithArgs\<close> returns an error exactly when there is no argument, or the
  first argument does not parse as an unsigned integer, or a range argument fails
  percent-decoding; and a call that returns an error leaves the configuration (the
  targets mapping and everything else) exactly as it was.
\<close>

theorem BuildWithArgs_error_no_mutation:
  "(fst (BuildWithArgs cfg args) \<noteq> None) =
     (args = [] \<or> isl (ParseUint (hd args)) \<or> isl (getKeyRanges (tl args))) \<and>
   (fst (BuildWithArgs cfg args) \<noteq> None \<longrightarrow> snd (BuildWithArgs cfg args) = cfg)"
  by (auto simp: BuildWithArgs_def split: sum.splits)

lemma getKeyRanges_bad: "getKeyRanges [''%zz'', ''b''] = Inl (EscapeError ''%zz'')"
  by (simp add: getKeyRanges_def ishex_def)

theorem BuildWithArgs_error_no_mutation_witness:
  "BuildWithArgs
     \<lparr>storage = \<lparr>saved = Map.empty, attempts = 0\<rparr>,
      StoreIDWitRanges = [5 \<mapsto> [\<lparr>StartKey = ''a'', EndKey = ''m''\<rparr>]], cluster = []\<rparr>
     [''5'', ''%zz'', ''b'']
   = (Some (WithStack (EscapeError ''%zz'')),
      \<lparr>storage = \<lparr>saved = Map.empty, attempts = 0\<rparr>,
       StoreIDWitRanges = [5 \<mapsto> [\<lparr>StartKey = ''a'', EndKey = ''m''\<rparr>]], cluster = []\<rparr>)"
  using BuildWithArgs_error_no_mutation
    [of "\<lparr>storage = \<lparr>saved = Map.empty, attempts = 0\<rparr>,
          StoreIDWitRanges = [5 \<mapsto> [\<lparr>StartKey = ''a'', EndKey = ''m''\<rparr>]], cluster = []\<rparr>"
        "[''5'', ''%zz'', ''b'']"]
  by (simp add: BuildWithArgs_def parse5 getKeyRanges_bad)

text \<open>
  C5. Let the first elements of two argument lists parse to the same store ID \<open>S\<close>,
  and let the ranges of the second list decode to \<open>ranges2\<close>. Then
  \<open>BuildWithArgs\<close> with the first list followed by \<open>BuildWithArgs\<close> with the second
  succeeds, leaves the configuration that the second call alone would have produced,
  with exactly \<open>ranges2\<close> as the entry of \<open>S\<close> (replacement, nothing of the first
  list is kept), and leaves every other store's entry as it was before both calls.
\<close>

theorem BuildWithArgs_replaces:
  assumes "ParseUint a1 = Inr S" and "ParseUint a2 = Inr S"
    and "getKeyRanges r2 = Inr ranges2"
  shows "fst (BuildWithArgs (snd (BuildWithArgs cfg (a1 # r1))) (a2 # r2)) = None \<and>
         snd (BuildWithArgs (snd (BuildWithArgs cfg (a1 # r1))) (a2 # r2))
           = snd (BuildWithArgs cfg (a2 # r2)) \<and>
         StoreIDWitRanges (snd (BuildWithArgs (snd (BuildWithArgs cfg (a1 # r1))) (a2 # r2))) S
           = Some ranges2 \<and>
         (\<forall>T. T \<noteq> S \<longrightarrow>
            StoreIDWitRanges (snd (BuildWithArgs (snd (BuildWithArgs cfg (a1 # r1))) (a2 # r2))) T
              = StoreIDWitRanges cfg T)"
  using assms by (auto simp: BuildWithArgs_def split: sum.splits)

lemma getKeyRanges_am:
  "getKeyRanges [''a'', ''m''] = Inr [\<lparr>StartKey = ''a'', EndKey = ''m''\<rparr>]"
  by (simp add: getKeyRanges_def NewKeyRange_def)

lemma getKeyRanges_nz:
  "getKeyRanges [''n'', ''z'', ''q''] = Inr [\<lparr>StartKey = ''n'', EndKey = ''z''\<rparr>]"
  by (simp add: getKeyRanges_def NewKeyRange_def)

theorem BuildWithArgs_replaces_witness:
  "ParseUint ''5'' = Inr 5 \<and>
   getKeyRanges [''n'', ''z'', ''q''] = Inr [\<lparr>StartKey = ''n'', EndKey = ''z''\<rparr>] \<and>
   BuildWithArgs (snd (BuildWithArgs
       \<lparr>storage = \<lparr>saved = Map.empty, attempts = 0\<rparr>, StoreIDWitRanges = Map.empty,
        cluster = []\<rparr>
       [''5'', ''a'', ''m''])) [''5'', ''n'', ''z'', ''q'']
   = (None, \<lparr>storage = \<lparr>saved = Map.empty, attempts = 0\<rparr>,
             StoreIDWitRanges = [5 \<mapsto> [\<lparr>StartKey = ''n'', EndKey = ''z''\<rparr>]], cluster = []\<rparr>)"
  using BuildWithArgs_replaces [OF parse5 parse5 getKeyRanges_nz,
      of "\<lparr>storage = \<lparr>saved = Map.empty, attempts = 0\<rparr>, StoreIDWitRanges = Map.empty,
           cluster = []\<rparr>"
         "[''a'', ''m'']"]
  by (simp add: BuildWithArgs_def parse5 getKeyRanges_nz getKeyRanges_am)

section \<open>Properties of the handlers\<close>

text \<open>
  C8. Deleting a store ID \<open>S\<close> that is not in the targets mapping returns, is
  answered with an error (status 500) and leaves the configuration unchanged: the same targets
  mapping, the same storage (nothing saved, no save attempted) and the same cluster
  (no resume and no pause call).
\<close>

theorem deleteConfig_absent:
  assumes "ParseUint idStr = Inr S" and "StoreIDWitRanges cfg S = None"
  shows "deleteConfig e cfg idStr =
           Some (\<lparr>status = StatusInternalServerError,
                  body = ErrValue (ErrorsNew ''the config does not exist'')\<rparr>, cfg)"
  using assms by (simp add: deleteConfig_def Lock_def)

theorem deleteConfig_absent_witness:
  "ParseUint ''5'' = Inr 5 \<and>
   deleteConfig \<lparr>pause_result = (\<lambda>cl sid d. None), encode_result = (\<lambda>m. None),
                 save_result = (\<lambda>st nm m. None)\<rparr>
     \<lparr>storage = \<lparr>saved = Map.empty, attempts = 0\<rparr>,
      StoreIDWitRanges = [7 \<mapsto> [\<lparr>StartKey = ''a'', EndKey = ''m''\<rparr>]], cluster = [Pause 7 In]\<rparr>
     ''5''
   = Some (\<lparr>status = 500, body = ErrValue (ErrorsNew ''the config does not exist'')\<rparr>,
      \<lparr>storage = \<lparr>saved = Map.empty, attempts = 0\<rparr>,
       StoreIDWitRanges = [7 \<mapsto> [\<lparr>StartKey = ''a'', EndKey = ''m''\<rparr>]],
       cluster = [Pause 7 In]\<rparr>)"
proof -
  have absent: "StoreIDWitRanges
      \<lparr>storage = \<lparr>saved = Map.empty, attempts = 0\<rparr>,
       StoreIDWitRanges = [7 \<mapsto> [\<lparr>StartKey = ''a'', EndKey = ''m''\<rparr>]],
       cluster = [Pause 7 In]\<rparr> 5 = None"
    by simp
  show ?thesis
    using parse5 deleteConfig_absent [OF parse5 absent]
    by (simp add: StatusInternalServerError_def)
qed

section \<open>Properties of the scheduler\<close>

text \<open>
  C3. \<open>IsScheduleAllowed\<close> returns true exactly when the operator controller's count
  of leader operators is strictly below the leader-schedule limit. A call that returns
  false adds exactly one to the rejection counter of this scheduler's type and the
  leader operator kind and leaves every other counter alone; a call that returns true
  leaves all counters unchanged.
\<close>

theorem IsScheduleAllowed_gate:
  assumes "IsScheduleAllowed s lim m = (allowed, m')"
  shows "allowed = (OperatorCount (OpController s) OpLeader < lim) \<and>
         (\<not> allowed \<longrightarrow>
            m' (GetType s, OpLeader) = m (GetType s, OpLeader) + 1 \<and>
            (\<forall>k. k \<noteq> (GetType s, OpLeader) \<longrightarrow> m' k = m k)) \<and>
         (allowed \<longrightarrow> m' = m)"
  using assms
  by (auto simp: IsScheduleAllowed_def IncOperatorLimitCounter_def Let_def split: if_splits)

theorem IsScheduleAllowed_gate_witness:
  "IsScheduleAllowed
     (newEvictLeaderScheduler \<lparr>counts = (\<lambda>k. 4)\<rparr>
        \<lparr>storage = \<lparr>saved = Map.empty, attempts = 0\<rparr>,
         StoreIDWitRanges = [5 \<mapsto> [\<lparr>StartKey = ''a'', EndKey = ''m''\<rparr>]], cluster = []\<rparr>)
     4 (\<lambda>k. 0)
   = (False, (\<lambda>k. 0)((userEvictLeaderScheduler, OpLeader) := 1)) \<and>
   IsScheduleAllowed
     (newEvictLeaderScheduler \<lparr>counts = (\<lambda>k. 4)\<rparr>
        \<lparr>storage = \<lparr>saved = Map.empty, attempts = 0\<rparr>,
         StoreIDWitRanges = [5 \<mapsto> [\<lparr>StartKey = ''a'', EndKey = ''m''\<rparr>]], cluster = []\<rparr>)
     5 (\<lambda>k. 0)
   = (True, (\<lambda>k. 0))"
proof -
  let ?s = "newEvictLeaderScheduler \<lparr>counts = (\<lambda>k. 4)\<rparr>
        \<lparr>storage = \<lparr>saved = Map.empty, attempts = 0\<rparr>,
         StoreIDWitRanges = [5 \<mapsto> [\<lparr>StartKey = ''a'', EndKey = ''m''\<rparr>]], cluster = []\<rparr>"
  obtain a1 m1 where r1: "IsScheduleAllowed ?s 4 (\<lambda>k. 0) = (a1, m1)" by (cases "IsScheduleAllowed ?s 4 (\<lambda>k. 0)")
  obtain a2 m2 where r2: "IsScheduleAllowed ?s 5 (\<lambda>k. 0) = (a2, m2)" by (cases "IsScheduleAllowed ?s 5 (\<lambda>k. 0)")
  have t: "GetType ?s = userEvictLeaderScheduler"
    by (simp add: GetType_def newEvictLeaderScheduler_def)
  have c: "OperatorCount (OpController ?s) OpLeader = 4"
    by (simp add: OperatorCount_def newEvictLeaderScheduler_def)
  from IsScheduleAllowed_gate [OF r1] have "\<not> a1" and "m1 (userEvictLeaderScheduler, OpLeader) = 1"
    and "\<forall>k. k \<noteq> (userEvictLeaderScheduler, OpLeader) \<longrightarrow> m1 k = 0"
    by (simp_all add: t c)
  then have "a1 = False" and "m1 = (\<lambda>k. 0)((userEvictLeaderScheduler, OpLeader) := 1)"
    by (auto simp: fun_eq_iff)
  moreover from IsScheduleAllowed_gate [OF r2] have "a2 = True" and "m2 = (\<lambda>k. 0)"
    by (simp_all add: t c)
  ultimately show ?thesis using r1 r2 by simp
qed

lemma PrepareConfig_loop_cluster:
  "snd (PrepareConfig_loop e kvs res cl) = cl @ map (\<lambda>kv. Pause (fst kv) In) kvs"
  by (induction kvs arbitrary: res cl)
     (auto simp: PauseLeaderTransfer_def split: option.splits)

lemma PrepareConfig_loop_result:
  "fst (PrepareConfig_loop e kvs res cl) =
     (if List.map_filter (\<lambda>r. r) (pause_results e kvs cl) = [] then res
      else Some (last (List.map_filter (\<lambda>r. r) (pause_results e kvs cl))))"
  by (induction kvs arbitrary: res cl)
     (auto simp: PauseLeaderTransfer_def map_filter_simps split: option.splits)

lemma length_pause_results: "length (pause_results e kvs cl) = length kvs"
  by (induction kvs arbitrary: cl)
     (auto simp: PauseLeaderTransfer_def)

lemma count_pause_keys:
  assumes "distinct (map fst kvs)"
  shows "count_list (map (\<lambda>kv. Pause (fst kv) In) kvs) (Pause S In)
           = (if S \<in> fst ` set kvs then 1 else 0)"
  using assms by (induction kvs) auto

lemma range_order_dom: "range_order m kvs \<Longrightarrow> fst ` set kvs = dom m"
  by (force simp: range_order_def dom_map_of_conv_image_fst)

lemma range_order_card: "range_order m kvs \<Longrightarrow> length kvs = card (dom m)"
proof -
  assume r: "range_order m kvs"
  have "card (dom m) = card (set (map fst kvs))"
    using range_order_dom [OF r] by simp
  also have "\<dots> = length (map fst kvs)"
    using r unfolding range_order_def by (intro distinct_card) blast
  finally show ?thesis by simp
qed

text \<open>
  C7. \<open>PrepareConfig\<close> calls \<open>PauseLeaderTransfer\<close> exactly once for every store ID
  of the targets mapping, whatever the earlier calls returned: the cluster receives one
  pause call per entry, in the order of the visit, and there are as many call results
  as configured stores. It returns the error of the last call that failed, and nil
  when no call failed.
\<close>

theorem PrepareConfig_pauses_all:
  assumes "range_order (StoreIDWitRanges (conf s)) kvs"
    and "PrepareConfig e kvs s cl = (res, cl', s')"
  shows "cl' = cl @ map (\<lambda>kv. Pause (fst kv) In) kvs \<and>
         (\<forall>S. count_list (drop (length cl) cl') (Pause S In)
                = (if S \<in> dom (StoreIDWitRanges (conf s)) then 1 else 0)) \<and>
         length (pause_results e kvs cl) = card (dom (StoreIDWitRanges (conf s))) \<and>
         res = (if List.map_filter (\<lambda>r. r) (pause_results e kvs cl) = [] then None
                else Some (last (List.map_filter (\<lambda>r. r) (pause_results e kvs cl))))"
proof -
  have cl': "cl' = snd (PrepareConfig_loop e kvs None cl)"
    and res: "res = fst (PrepareConfig_loop e kvs None cl)"
    using assms(2) by (auto simp: PrepareConfig_def split: prod.splits)
  have d: "distinct (map fst kvs)" using assms(1) by (simp add: range_order_def)
  have 1: "cl' = cl @ map (\<lambda>kv. Pause (fst kv) In) kvs"
    using cl' by (simp add: PrepareConfig_loop_cluster)
  have 2: "\<forall>S. count_list (drop (length cl) cl') (Pause S In)
                = (if S \<in> dom (StoreIDWitRanges (conf s)) then 1 else 0)"
    using count_pause_keys [OF d] range_order_dom [OF assms(1)] by (simp add: 1)
  have 3: "length (pause_results e kvs cl) = card (dom (StoreIDWitRanges (conf s)))"
    using range_order_card [OF assms(1)] by (simp add: length_pause_results)
  have 4: "res = (if List.map_filter (\<lambda>r. r) (pause_results e kvs cl) = [] then None
                else Some (last (List.map_filter (\<lambda>r. r) (pause_results e kvs cl))))"
    using res by (simp only: PrepareConfig_loop_result)
  from 1 2 3 4 show ?thesis by blast
qed


theorem PrepareConfig_pauses_all_witness:
  "range_order [9 \<mapsto> [\<lparr>StartKey = [], EndKey = []\<rparr>], 5 \<mapsto> [\<lparr>StartKey = ''a'', EndKey = ''m''\<rparr>],
                7 \<mapsto> [\<lparr>StartKey = [], EndKey = []\<rparr>]]
     [(7, [\<lparr>StartKey = [], EndKey = []\<rparr>]), (5, [\<lparr>StartKey = ''a'', EndKey = ''m''\<rparr>]),
      (9, [\<lparr>StartKey = [], EndKey = []\<rparr>])] \<and>
   PrepareConfig
     \<lparr>pause_result = (\<lambda>cl sid d. if sid = 7 then Some (ErrorsNew ''store 7'')
                                   else if sid = 5 then Some (ErrorsNew ''store 5'') else None),
      encode_result = (\<lambda>m. None), save_result = (\<lambda>st nm m. None)\<rparr>
     [(7, [\<lparr>StartKey = [], EndKey = []\<rparr>]), (5, [\<lparr>StartKey = ''a'', EndKey = ''m''\<rparr>]),
      (9, [\<lparr>StartKey = [], EndKey = []\<rparr>])]
     (newEvictLeaderScheduler \<lparr>counts = (\<lambda>k. 0)\<rparr>
        \<lparr>storage = \<lparr>saved = Map.empty, attempts = 0\<rparr>,
         StoreIDWitRanges = [9 \<mapsto> [\<lparr>StartKey = [], EndKey = []\<rparr>],
                             5 \<mapsto> [\<lparr>StartKey = ''a'', EndKey = ''m''\<rparr>],
                             7 \<mapsto> [\<lparr>StartKey = [], EndKey = []\<rparr>]],
         cluster = []\<rparr>)
     []
   = (Some (ErrorsNew ''store 5''), [Pause 7 In, Pause 5 In, Pause 9 In],
      newEvictLeaderScheduler \<lparr>counts = (\<lambda>k. 0)\<rparr>
        \<lparr>storage = \<lparr>saved = Map.empty, attempts = 0\<rparr>,
         StoreIDWitRanges = [9 \<mapsto> [\<lparr>StartKey = [], EndKey = []\<rparr>],
                             5 \<mapsto> [\<lparr>StartKey = ''a'', EndKey = ''m''\<rparr>],
                             7 \<mapsto> [\<lparr>StartKey = [], EndKey = []\<rparr>]],
         cluster = []\<rparr>)"
proof -
  let ?m = "[9 \<mapsto> [\<lparr>StartKey = [], EndKey = []\<rparr>], 5 \<mapsto> [\<lparr>StartKey = ''a'', EndKey = ''m''\<rparr>],
             7 \<mapsto> [\<lparr>StartKey = [], EndKey = []\<rparr>]] :: targets"
  let ?kvs = "[(7, [\<lparr>StartKey = [], EndKey = []\<rparr>]), (5, [\<lparr>StartKey = ''a'', EndKey = ''m''\<rparr>]),
               (9, [\<lparr>StartKey = [], EndKey = []\<rparr>])] :: (u64 \<times> KeyRange list) list"
  let ?e = "\<lparr>pause_result = (\<lambda>cl sid d. if sid = (7::u64) then Some (ErrorsNew ''store 7'')
                                   else if sid = 5 then Some (ErrorsNew ''store 5'') else None),
      encode_result = (\<lambda>m. None), save_result = (\<lambda>st nm m. None)\<rparr>"
  let ?s = "newEvictLeaderScheduler \<lparr>counts = (\<lambda>k. 0)\<rparr>
        \<lparr>storage = \<lparr>saved = Map.empty, attempts = 0\<rparr>, StoreIDWitRanges = ?m, cluster = []\<rparr>"
  have r: "range_order (StoreIDWitRanges (conf ?s)) ?kvs"
    by (simp add: range_order_def newEvictLeaderScheduler_def)
  obtain res cl' s' where p: "PrepareConfig ?e ?kvs ?s [] = (res, cl', s')"
    by (cases "PrepareConfig ?e ?kvs ?s []")
  have s': "s' = ?s" using p by (simp add: PrepareConfig_def split: prod.splits)
  have pr: "pause_results ?e ?kvs [] = [Some (ErrorsNew ''store 7''), Some (ErrorsNew ''store 5''), None]"
    by (simp add: PauseLeaderTransfer_def)
  from PrepareConfig_pauses_all [OF r p, unfolded pr]
  have "cl' = [Pause 7 In, Pause 5 In, Pause 9 In]" and "res = Some (ErrorsNew ''store 5'')"
    by (simp_all add: pr map_filter_simps)
  with p s' r show ?thesis by (simp add: newEvictLeaderScheduler_def)
qed

lemma Schedule_loop_ops:
  "fst (Schedule_loop c s kvs ops g) =
     ops @ List.map_filter (\<lambda>r. r) (step_results c s kvs g)"
  by (induction kvs arbitrary: ops g)
     (auto simp: map_filter_simps split: prod.splits option.splits)

lemma length_step_results: "length (step_results c s kvs g) = length kvs"
  by (induction kvs arbitrary: g) (auto split: prod.splits)

text \<open>
  C4. One call of \<open>Schedule\<close> runs the loop body once per store ID of the targets
  mapping, and each run contributes one operator or none: the operators returned are
  exactly the operators of the runs that produced one, so there are at most as many as
  configured stores. The plans are always nil. When no run produces an operator the
  result is the empty sequence; \<open>Schedule\<close> has no error result.
\<close>

theorem Schedule_one_per_store:
  assumes "range_order (StoreIDWitRanges (conf s)) kvs"
  shows "fst (fst (Schedule c kvs s g))
           = List.map_filter (\<lambda>r. r) (step_results c s kvs g) \<and>
         snd (fst (Schedule c kvs s g)) = [] \<and>
         length (step_results c s kvs g) = card (dom (StoreIDWitRanges (conf s))) \<and>
         length (fst (fst (Schedule c kvs s g))) \<le> card (dom (StoreIDWitRanges (conf s))) \<and>
         ((\<forall>r \<in> set (step_results c s kvs g). r = None) \<longrightarrow>
            fst (Schedule c kvs s g) = ([], []))"
proof -
  have ops: "fst (fst (Schedule c kvs s g))
               = List.map_filter (\<lambda>r. r) (step_results c s kvs g)"
    using Schedule_loop_ops [of c s kvs "[]" g]
    by (simp add: Schedule_def case_prod_beta)
  have plans: "snd (fst (Schedule c kvs s g)) = []"
    by (simp add: Schedule_def case_prod_beta)
  have len: "length (step_results c s kvs g) = card (dom (StoreIDWitRanges (conf s)))"
    using range_order_card [OF assms] by (simp add: length_step_results)
  have "length (List.map_filter (\<lambda>r. r) (step_results c s kvs g))
          \<le> length (step_results c s kvs g)"
    by (simp add: List.map_filter_def)
  then have bound: "length (fst (fst (Schedule c kvs s g)))
                      \<le> card (dom (StoreIDWitRanges (conf s)))"
    using ops len by simp
  have none: "(\<forall>r \<in> set (step_results c s kvs g). r = None) \<longrightarrow>
                fst (Schedule c kvs s g) = ([], [])"
  proof
    assume "\<forall>r \<in> set (step_results c s kvs g). r = None"
    then have "List.map_filter (\<lambda>r. r) (step_results c s kvs g) = []"
      by (simp add: List.map_filter_def filter_empty_conv)
    with ops plans show "fst (Schedule c kvs s g) = ([], [])"
      by (simp add: prod_eq_iff)
  qed
  from ops plans len bound none show ?thesis by blast
qed

theorem Schedule_one_per_store_witness:
  "range_order [5 \<mapsto> [\<lparr>StartKey = ''a'', EndKey = ''m''\<rparr>], 8 \<mapsto> [\<lparr>StartKey = [], EndKey = []\<rparr>]]
     [(8, [\<lparr>StartKey = [], EndKey = []\<rparr>]), (5, [\<lparr>StartKey = ''a'', EndKey = ''m''\<rparr>])] \<and>
   Schedule
     \<lparr>RandLeaderRegions = (\<lambda>g sid rs. (if sid = 5 then [(100, [7, 9])] else [], Suc g)),
      SelectOneRegion = (\<lambda>rs. case rs of [] \<Rightarrow> None | r # rest \<Rightarrow> Some r),
      GetFollowerStores = (\<lambda>g r. snd r),
      FilterTargetRandomPick = (\<lambda>g ss. (case ss of [] \<Rightarrow> None | x # rest \<Rightarrow> Some x, Suc g)),
      GetID = (\<lambda>x. x),
      CreateTransferLeaderOperator = (\<lambda>g nm r t k.
         Inr \<lparr>desc = nm, region_id = fst r, target_store = t, kind = k, level = Medium\<rparr>)\<rparr>
     [(8, [\<lparr>StartKey = [], EndKey = []\<rparr>]), (5, [\<lparr>StartKey = ''a'', EndKey = ''m''\<rparr>])]
     (newEvictLeaderScheduler \<lparr>counts = (\<lambda>k. 0)\<rparr>
        \<lparr>storage = \<lparr>saved = Map.empty, attempts = 0\<rparr>,
         StoreIDWitRanges = [5 \<mapsto> [\<lparr>StartKey = ''a'', EndKey = ''m''\<rparr>],
                             8 \<mapsto> [\<lparr>StartKey = [], EndKey = []\<rparr>]],
         cluster = []\<rparr>)
     (0::nat)
   = (([\<lparr>desc = userEvictLeaderScheduler, region_id = 100, target_store = 7, kind = OpLeader,
          level = High\<rparr>], []), 3,
      newEvictLeaderScheduler \<lparr>counts = (\<lambda>k. 0)\<rparr>
        \<lparr>storage = \<lparr>saved = Map.empty, attempts = 0\<rparr>,
         StoreIDWitRanges = [5 \<mapsto> [\<lparr>StartKey = ''a'', EndKey = ''m''\<rparr>],
                             8 \<mapsto> [\<lparr>StartKey = [], EndKey = []\<rparr>]],
         cluster = []\<rparr>)"
proof -
  let ?kvs = "[(8, [\<lparr>StartKey = [], EndKey = []\<rparr>]), (5, [\<lparr>StartKey = ''a'', EndKey = ''m''\<rparr>])]
                :: (u64 \<times> KeyRange list) list"
  let ?c = "\<lparr>RandLeaderRegions = (\<lambda>(g::nat) (sid::u64) (rs::KeyRange list).
                  (if sid = 5 then [(100::u64, [7, 9::u64])] else [], Suc g)),
      SelectOneRegion = (\<lambda>rs. case rs of [] \<Rightarrow> None | r # rest \<Rightarrow> Some r),
      GetFollowerStores = (\<lambda>g r. snd r),
      FilterTargetRandomPick = (\<lambda>g ss. (case ss of [] \<Rightarrow> None | x # rest \<Rightarrow> Some x, Suc g)),
      GetID = (\<lambda>x. x),
      CreateTransferLeaderOperator = (\<lambda>g nm r t k.
         Inr \<lparr>desc = nm, region_id = fst r, target_store = t, kind = k, level = Medium\<rparr>)\<rparr>"
  let ?s = "newEvictLeaderScheduler \<lparr>counts = (\<lambda>k. 0)\<rparr>
        \<lparr>storage = \<lparr>saved = Map.empty, attempts = 0\<rparr>,
         StoreIDWitRanges = [5 \<mapsto> [\<lparr>StartKey = ''a'', EndKey = ''m''\<rparr>],
                             8 \<mapsto> [\<lparr>StartKey = [], EndKey = []\<rparr>]],
         cluster = []\<rparr>"
  have r: "range_order (StoreIDWitRanges (conf ?s)) ?kvs"
    by (simp add: range_order_def newEvictLeaderScheduler_def)
  have sr: "step_results ?c ?s ?kvs 0 =
      [None, Some \<lparr>desc = userEvictLeaderScheduler, region_id = 100, target_store = 7,
                   kind = OpLeader, level = High\<rparr>]"
    by (simp add: Schedule_step_def SetPriorityLevel_def GetName_def newEvictLeaderScheduler_def)
  have rest: "snd (Schedule ?c ?kvs ?s 0) = (3, ?s)"
    by (simp add: Schedule_def Schedule_step_def SetPriorityLevel_def GetName_def
        newEvictLeaderScheduler_def numeral_3_eq_3)
  from Schedule_one_per_store [OF r, of ?c 0, unfolded sr]
  have "fst (Schedule ?c ?kvs ?s 0) =
      ([\<lparr>desc = userEvictLeaderScheduler, region_id = 100, target_store = 7,
                   kind = OpLeader, level = High\<rparr>], [])"
    by (simp add: map_filter_simps prod_eq_iff)
  with rest r show ?thesis by (simp add: prod_eq_iff newEvictLeaderScheduler_def)
qed

section \<open>Frame properties\<close>

text \<open>
  C10. The read-side operations return their receiver as it was: \<open>Schedule\<close>,
  \<open>EncodeConfig\<close>, \<open>PrepareConfig\<close> and \<open>CleanConfig\<close> leave the scheduler (and so
  its targets mapping) unchanged, \<open>Clone\<close> and \<open>getRanges\<close> leave the configuration
  unchanged (and the clone has the same targets mapping), \<open>Persist\<close> changes the
  storage only. \<open>getRanges\<close> on a store ID that is not in the mapping returns the
  empty sequence and adds no entry.
\<close>

theorem read_side_frame:
  "snd (snd (Schedule c kvs s g)) = s \<and>
   snd (Clone cfg) = cfg \<and>
   StoreIDWitRanges (fst (Clone cfg)) = StoreIDWitRanges cfg \<and>
   StoreIDWitRanges (snd (Persist e cfg)) = StoreIDWitRanges cfg \<and>
   cluster (snd (Persist e cfg)) = cluster cfg \<and>
   snd (EncodeConfig e s) = s \<and>
   snd (getRanges cfg sid) = cfg \<and>
   (StoreIDWitRanges cfg sid = None \<longrightarrow> fst (getRanges cfg sid) = []) \<and>
   snd (snd (PrepareConfig e kvs s cl)) = s \<and>
   snd (CleanConfig kvs s cl) = s"
  by (simp add: Schedule_def Clone_def Persist_def schedulers_EncodeConfig_def EncodeConfig_def
      SaveSchedulerConfig_def getRanges_def PrepareConfig_def CleanConfig_def case_prod_beta
      split: option.splits)


theorem read_side_frame_witness:
  "getRanges \<lparr>storage = \<lparr>saved = Map.empty, attempts = 0\<rparr>,
              StoreIDWitRanges = [5 \<mapsto> [\<lparr>StartKey = ''a'', EndKey = ''m''\<rparr>]],
              cluster = [Pause 5 In]\<rparr> 6
   = ([], \<lparr>storage = \<lparr>saved = Map.empty, attempts = 0\<rparr>,
           StoreIDWitRanges = [5 \<mapsto> [\<lparr>StartKey = ''a'', EndKey = ''m''\<rparr>]],
           cluster = [Pause 5 In]\<rparr>) \<and>
   StoreIDWitRanges (snd (Persist
       \<lparr>pause_result = (\<lambda>cl sid d. None), encode_result = (\<lambda>m. None),
        save_result = (\<lambda>st nm m. None)\<rparr>
       \<lparr>storage = \<lparr>saved = Map.empty, attempts = 0\<rparr>,
        StoreIDWitRanges = [5 \<mapsto> [\<lparr>StartKey = ''a'', EndKey = ''m''\<rparr>]],
        cluster = [Pause 5 In]\<rparr>))
   = [5 \<mapsto> [\<lparr>StartKey = ''a'', EndKey = ''m''\<rparr>]]"
proof -
  let ?cfg = "\<lparr>storage = \<lparr>saved = Map.empty, attempts = 0\<rparr>,
              StoreIDWitRanges = [5 \<mapsto> [\<lparr>StartKey = ''a'', EndKey = ''m''\<rparr>]],
              cluster = [Pause 5 In]\<rparr>"
  let ?e = "\<lparr>pause_result = (\<lambda>cl sid d. None), encode_result = (\<lambda>m. None),
        save_result = (\<lambda>st nm m. None)\<rparr>"
  have absent: "StoreIDWitRanges ?cfg 6 = None" by simp
  let ?c = "\<lparr>RandLeaderRegions = (\<lambda>g sid rs. ([], g)), SelectOneRegion = (\<lambda>rs. None),
      GetFollowerStores = (\<lambda>g r. []), FilterTargetRandomPick = (\<lambda>g ss. (None, g)),
      GetID = (\<lambda>x. 0),
      CreateTransferLeaderOperator = (\<lambda>g nm r t k. Inl (ErrorsNew []))\<rparr>
      :: (unit, unit, unit) sched_cluster"
  from read_side_frame [where cfg = ?cfg and e = ?e and sid = 6 and c = ?c and kvs = "[]"
      and s = "newEvictLeaderScheduler \<lparr>counts = (\<lambda>k. 0)\<rparr> ?cfg" and g = "()" and cl = "[]"]
    absent
  have "snd (getRanges ?cfg 6) = ?cfg" and "fst (getRanges ?cfg 6) = []"
    and "StoreIDWitRanges (snd (Persist ?e ?cfg)) = StoreIDWitRanges ?cfg"
    by blast+
  then show ?thesis by (simp add: prod_eq_iff)
qed

section \<open>Pause and resume calls of the handlers\<close>

lemma Persist_fields:
  "StoreIDWitRanges (snd (Persist e cfg)) = StoreIDWitRanges cfg"
  "cluster (snd (Persist e cfg)) = cluster cfg"
  by (simp_all add: Persist_def schedulers_EncodeConfig_def SaveSchedulerConfig_def
      case_prod_beta split: option.splits)

lemma BuildWithArgs_FormatUint:
  "BuildWithArgs cfg (FormatUint S # rs) =
     (case getKeyRanges rs of
        Inl err \<Rightarrow> (Some (WithStack err), cfg)
      | Inr r \<Rightarrow> (None, cfg\<lparr>StoreIDWitRanges := (StoreIDWitRanges cfg)(S \<mapsto> r)\<rparr>))"
  by (simp add: BuildWithArgs_def ParseUint_FormatUint)

lemma net_pauses_append [simp]:
  "net_pauses (cl @ [Pause S In]) S = net_pauses cl S + 1"
  "net_pauses (cl @ [Resume S In]) S = net_pauses cl S - 1"
  by (simp_all add: net_pauses_def)

text \<open>The three ways \<open>updateConfig\<close> ends once the store ID is read and the pause is done.\<close>

lemma updateConfig_build_cases:
  assumes "updateConfig_build e cfg i [FormatUint S] ex S = (resp, cfg')"
  shows "status resp = StatusBadRequest \<or>
         (\<exists>r cfg3. Persist e (cfg\<lparr>StoreIDWitRanges := (StoreIDWitRanges cfg)(S \<mapsto> r)\<rparr>) = (None, cfg3) \<and>
            status resp = StatusOK \<and> cfg' = cfg3) \<or>
         (\<exists>r cfg3 err.
            Persist e (cfg\<lparr>StoreIDWitRanges := (StoreIDWitRanges cfg)(S \<mapsto> r)\<rparr>) = (Some err, cfg3) \<and>
            status resp = StatusInternalServerError \<and>
            cfg' = cfg3\<lparr>StoreIDWitRanges := (StoreIDWitRanges cfg3)(S := None),
                        cluster := ResumeLeaderTransfer (cluster cfg3) S In\<rparr>)"
proof -
  obtain args cfg1 where a: "(case ranges i of
              Some rs \<Rightarrow> ([FormatUint S] @ rs, cfg)
            | None \<Rightarrow>
                (if ex then (case getRanges cfg S of (rs, config1) \<Rightarrow> ([FormatUint S] @ rs, config1))
                 else ([FormatUint S], cfg))) = (args, cfg1)"
    by (cases "(case ranges i of
              Some rs \<Rightarrow> ([FormatUint S] @ rs, cfg)
            | None \<Rightarrow>
                (if ex then (case getRanges cfg S of (rs, config1) \<Rightarrow> ([FormatUint S] @ rs, config1))
                 else ([FormatUint S], cfg)))")
  then have cfg1: "cfg1 = cfg" and args: "\<exists>rs. args = FormatUint S # rs"
    by (auto simp: getRanges_def split: option.splits if_splits)
  from args obtain rs where rs: "args = FormatUint S # rs" by blast
  show ?thesis
  proof (cases "getKeyRanges rs")
    case (Inl err)
    then have "status resp = StatusBadRequest"
      using assms a
      by (auto simp: updateConfig_build_def rs cfg1 BuildWithArgs_FormatUint)
    then show ?thesis by simp
  next
    case (Inr r)
    let ?cfg2 = "cfg\<lparr>StoreIDWitRanges := (StoreIDWitRanges cfg)(S \<mapsto> r)\<rparr>"
    obtain perr cfg3 where p: "Persist e ?cfg2 = (perr, cfg3)" by (cases "Persist e ?cfg2")
    show ?thesis
    proof (cases perr)
      case None
      then have "status resp = StatusOK \<and> cfg' = cfg3"
        using assms a Inr p
        by (auto simp: updateConfig_build_def rs cfg1 BuildWithArgs_FormatUint)
      with p None show ?thesis by blast
    next
      case (Some err)
      then have "status resp = StatusInternalServerError \<and>
                 cfg' = cfg3\<lparr>StoreIDWitRanges := (StoreIDWitRanges cfg3)(S := None),
                             cluster := ResumeLeaderTransfer (cluster cfg3) S In\<rparr>"
        using assms a Inr p
        by (auto simp: updateConfig_build_def rs cfg1 BuildWithArgs_FormatUint)
      with p Some show ?thesis by blast
    qed
  qed
qed

lemma Persist_fields_eq:
  assumes "Persist e cfg = (perr, cfg3)"
  shows "StoreIDWitRanges cfg3 = StoreIDWitRanges cfg \<and> cluster cfg3 = cluster cfg"
  using Persist_fields [of e cfg] assms by simp

lemma updateConfig_build_net:
  assumes "updateConfig_build e cfg i [FormatUint S] ex S = (resp, cfg')"
    and "status resp \<noteq> StatusBadRequest"
  shows "(StoreIDWitRanges cfg' S \<noteq> None \<and> net_pauses (cluster cfg') S = net_pauses (cluster cfg) S) \<or>
         (StoreIDWitRanges cfg' S = None \<and> net_pauses (cluster cfg') S = net_pauses (cluster cfg) S - 1)"
  using updateConfig_build_cases [OF assms(1)] assms(2)
  by (auto simp: ResumeLeaderTransfer_def dest!: Persist_fields_eq)

lemma updateConfig_net:
  assumes "store_id i = Some S"
    and "updateConfig e cfg i = (resp, cfg')"
    and "status resp \<noteq> StatusBadRequest"
  shows "net_pauses (cluster cfg') S - net_pauses (cluster cfg) S =
           present cfg' S - present cfg S +
           (if pause_refused e cfg (Update i) then 1 else 0)"
proof (cases "StoreIDWitRanges cfg S = None")
  case True
  let ?cfg1 = "cfg\<lparr>cluster := cluster cfg @ [Pause S In]\<rparr>"
  show ?thesis
  proof (cases "pause_result e (cluster cfg) S In")
    case None
    have "updateConfig_build e ?cfg1 i [FormatUint S] False S = (resp, cfg')"
      using assms(1,2) True None by (simp add: updateConfig_def PauseLeaderTransfer_def)
    from updateConfig_build_net [OF this assms(3)] True None assms(1) show ?thesis
      by (auto simp: present_def pause_refused_def)
  next
    case (Some err)
    have "cfg' = ?cfg1"
      using assms(1,2) True Some by (simp add: updateConfig_def PauseLeaderTransfer_def)
    with True Some assms(1) show ?thesis
      by (simp add: present_def pause_refused_def)
  qed
next
  case False
  have "updateConfig_build e cfg i [FormatUint S] True S = (resp, cfg')"
    using assms(1,2) False by (simp add: updateConfig_def)
  from updateConfig_build_net [OF this assms(3)] False assms(1) show ?thesis
    by (auto simp: present_def pause_refused_def)
qed

text \<open>
  A delete of a store that is in the mapping does not return: \<open>deleteConfig\<close> has
  deleted the entry and issued the resume, and holds the mutex for writing when
  \<open>Persist\<close> asks for it for reading.
\<close>

lemma deleteConfig_configured_blocks:
  assumes "ParseUint idStr = Inr S" and "StoreIDWitRanges cfg S = Some rs"
  shows "deleteConfig e cfg idStr = None"
  using assms by (simp add: deleteConfig_def Lock_def Persist_holding_def RLock_def)

lemma deleteConfig_returns:
  assumes "ParseUint idStr = Inr S" and "deleteConfig e cfg idStr = Some (resp, cfg')"
  shows "StoreIDWitRanges cfg S = None \<and> cfg' = cfg \<and> status resp = StatusInternalServerError"
proof (cases "StoreIDWitRanges cfg S")
  case None
  then show ?thesis using assms by (auto simp: deleteConfig_def Lock_def)
next
  case (Some rs)
  then show ?thesis using assms deleteConfig_configured_blocks [OF assms(1) Some, of e] by simp
qed

text \<open>
  The balance of pause and resume calls over a sequence of requests on one store, each
  of which returns and none of which is answered with status 400.
\<close>

lemma run_net:
  "\<forall>r \<in> set reqs. on_store S r \<Longrightarrow> run e cfg reqs = Some (resps, cfg') \<Longrightarrow>
   \<forall>resp \<in> set resps. status resp \<noteq> StatusBadRequest \<Longrightarrow>
   net_pauses (cluster cfg') S - net_pauses (cluster cfg) S =
     present cfg' S - present cfg S + int (pause_refusals e cfg reqs)"
proof (induction reqs arbitrary: cfg resps)
  case Nil
  then show ?case by simp
next
  case (Cons req reqs)
  obtain resp cfg1 where s: "serve e cfg req = Some (resp, cfg1)"
    using Cons.prems(2) by (auto split: option.splits)
  obtain resps1 where r: "run e cfg1 reqs = Some (resps1, cfg')" and rs: "resps = resp # resps1"
    using Cons.prems(2) s by (auto split: option.splits)
  have ok: "status resp \<noteq> StatusBadRequest" using Cons.prems(3) rs by simp
  have step: "net_pauses (cluster cfg1) S - net_pauses (cluster cfg) S =
                present cfg1 S - present cfg S + (if pause_refused e cfg req then 1 else 0)"
  proof (cases req)
    case (Update i)
    then show ?thesis
      using Cons.prems(1) s ok updateConfig_net [of i S e cfg resp cfg1]
      by (simp add: serve_def on_store_def)
  next
    case (Delete idStr)
    then show ?thesis
      using Cons.prems(1) s deleteConfig_returns [of idStr S e cfg resp cfg1]
      by (simp add: serve_def on_store_def pause_refused_def)
  qed
  have "net_pauses (cluster cfg') S - net_pauses (cluster cfg1) S =
          present cfg' S - present cfg1 S + int (pause_refusals e cfg1 reqs)"
    using Cons.IH [OF _ r] Cons.prems(1,3) rs by simp
  with step s show ?case by (cases "pause_refused e cfg req") simp_all
qed






section \<open>Persistence failure in an update\<close>

text \<open>
  When the save fails in an update of a store that is already configured, the entry of
  the store is deleted and a resume is issued, whatever the entry was before and
  although this update issued no pause.
\<close>

lemma updateConfig_persist_failure_existing:
  assumes "store_id i = Some S" and "StoreIDWitRanges cfg S = Some old"
    and "updateConfig e cfg i = (resp, cfg')"
    and "status resp = StatusInternalServerError"
  shows "StoreIDWitRanges cfg' = (StoreIDWitRanges cfg)(S := None) \<and>
         cluster cfg' = cluster cfg @ [Resume S In]"
proof -
  have b: "updateConfig_build e cfg i [FormatUint S] True S = (resp, cfg')"
    using assms(1,2,3) by (simp add: updateConfig_def)
  from updateConfig_build_cases [OF b] assms(4) show ?thesis
    by (auto simp: ResumeLeaderTransfer_def StatusBadRequest_def StatusOK_def
        StatusInternalServerError_def dest!: Persist_fields_eq)
qed

text \<open>
  C1. An update of store 5, configured with the range \<open>(a, m)\<close> and paused by the
  update that added it, whose save fails: the handler answers 500, the entry of store 5
  is gone (it does not keep its old range) and a resume is issued for store 5 although
  this update did not pause it. The storage still holds the old entry.
\<close>

theorem updateConfig_persist_failure_drops_entry:
  "updateConfig
     \<lparr>pause_result = (\<lambda>cl sid d. None), encode_result = (\<lambda>m. None),
      save_result = (\<lambda>st nm m. Some (ErrorsNew ''unavailable''))\<rparr>
     \<lparr>storage = \<lparr>saved = [EvictLeaderName \<mapsto> [5 \<mapsto> [\<lparr>StartKey = ''a'', EndKey = ''m''\<rparr>]]],
                 attempts = 1\<rparr>,
      StoreIDWitRanges = [5 \<mapsto> [\<lparr>StartKey = ''a'', EndKey = ''m''\<rparr>]],
      cluster = [Pause 5 In]\<rparr>
     \<lparr>store_id = Some 5, ranges = None\<rparr>
   = (\<lparr>status = 500, body = ErrText (ErrorsNew ''unavailable'')\<rparr>,
      \<lparr>storage = \<lparr>saved = [EvictLeaderName \<mapsto> [5 \<mapsto> [\<lparr>StartKey = ''a'', EndKey = ''m''\<rparr>]]],
                  attempts = 2\<rparr>,
       StoreIDWitRanges = Map.empty,
       cluster = [Pause 5 In, Resume 5 In]\<rparr>)"
  by (simp add: updateConfig_def updateConfig_build_def
      ResumeLeaderTransfer_def Persist_def schedulers_EncodeConfig_def
      SaveSchedulerConfig_def getRanges_def BuildWithArgs_FormatUint getKeyRanges_def
      NewKeyRange_def StatusInternalServerError_def)

section \<open>Requests as the JSON decoder delivers them\<close>

text \<open>
  A decoded body never holds a \<open>[]string\<close>, so \<open>ranges\<close> is \<open>None\<close> in every update
  that arrives over HTTP. Served from an empty configuration, such updates of a store
  only ever store the whole-keyspace range, and \<open>BuildWithArgs\<close> accepts what
  \<open>getRanges\<close> gives back for it: no request is answered with status 400.
\<close>

lemma getKeyRanges_empty_pair: "getKeyRanges [[], []] = Inr [\<lparr>StartKey = [], EndKey = []\<rparr>]"
  by (simp add: getKeyRanges_def NewKeyRange_def)

lemma getKeyRanges_nil: "getKeyRanges [] = Inr [\<lparr>StartKey = [], EndKey = []\<rparr>]"
  by (simp add: getKeyRanges_def NewKeyRange_def)

lemma updateConfig_build_decoded:
  assumes "ranges i = None" and "sentinel_or_absent cfg S"
    and "ex = (StoreIDWitRanges cfg S \<noteq> None)"
    and "updateConfig_build e cfg i [FormatUint S] ex S = (resp, cfg')"
  shows "status resp \<noteq> StatusBadRequest \<and> sentinel_or_absent cfg' S"
proof -
  let ?cfg2 = "cfg\<lparr>StoreIDWitRanges := (StoreIDWitRanges cfg)(S \<mapsto> [\<lparr>StartKey = [], EndKey = []\<rparr>])\<rparr>"
  obtain perr cfg3 where p: "Persist e ?cfg2 = (perr, cfg3)" by (cases "Persist e ?cfg2")
  have f: "StoreIDWitRanges cfg3 = StoreIDWitRanges ?cfg2"
    using Persist_fields_eq [OF p] by simp
  have b: "updateConfig_build e cfg i [FormatUint S] ex S =
      (case perr of
         Some err \<Rightarrow> (\<lparr>status = StatusInternalServerError, body = ErrText err\<rparr>,
                     cfg3\<lparr>StoreIDWitRanges := (StoreIDWitRanges cfg3)(S := None),
                          cluster := ResumeLeaderTransfer (cluster cfg3) S In\<rparr>)
       | None \<Rightarrow> (\<lparr>status = StatusOK, body = Null\<rparr>, cfg3))"
    using assms(1,2,3) p
    by (auto simp: updateConfig_build_def sentinel_or_absent_def getRanges_def
        BuildWithArgs_FormatUint getKeyRanges_nil getKeyRanges_empty_pair)
  show ?thesis
    using assms(4) f unfolding b
    by (auto simp: sentinel_or_absent_def StatusBadRequest_def StatusOK_def
        StatusInternalServerError_def split: option.splits)
qed

lemma serve_decoded:
  assumes "on_store S req" and "decoded req"
    and "sentinel_or_absent cfg S"
    and "serve e cfg req = Some (resp, cfg')"
  shows "status resp \<noteq> StatusBadRequest \<and> sentinel_or_absent cfg' S"
proof (cases req)
  case (Update i)
  then have i: "store_id i = Some S" "ranges i = None"
    using assms(1,2) by (simp_all add: on_store_def decoded_def)
  have u: "updateConfig e cfg i = (resp, cfg')" using assms(4) Update by (simp add: serve_def)
  show ?thesis
  proof (cases "StoreIDWitRanges cfg S = None")
    case True
    let ?cfg1 = "cfg\<lparr>cluster := cluster cfg @ [Pause S In]\<rparr>"
    have s1: "sentinel_or_absent ?cfg1 S" using True by (simp add: sentinel_or_absent_def)
    show ?thesis
    proof (cases "pause_result e (cluster cfg) S In")
      case None
      have "updateConfig_build e ?cfg1 i [FormatUint S] False S = (resp, cfg')"
        using u i(1) True None by (simp add: updateConfig_def PauseLeaderTransfer_def)
      then show ?thesis
        using updateConfig_build_decoded [OF i(2) s1, of False e resp cfg'] True by simp
    next
      case (Some err)
      have "resp = \<lparr>status = StatusInternalServerError, body = ErrText err\<rparr> \<and> cfg' = ?cfg1"
        using u i(1) True Some by (auto simp: updateConfig_def PauseLeaderTransfer_def)
      with s1 show ?thesis
        by (simp add: StatusBadRequest_def StatusInternalServerError_def)
    qed
  next
    case False
    have "updateConfig_build e cfg i [FormatUint S] True S = (resp, cfg')"
      using u i(1) False by (simp add: updateConfig_def)
    then show ?thesis
      using updateConfig_build_decoded [OF i(2) assms(3), of True e resp cfg'] False by simp
  qed
next
  case (Delete idStr)
  then have ps: "ParseUint idStr = Inr S" using assms(1) by (simp add: on_store_def)
  have d: "deleteConfig e cfg idStr = Some (resp, cfg')"
    using assms(4) Delete by (simp add: serve_def)
  from deleteConfig_returns [OF ps d] assms(3) show ?thesis
    by (simp add: StatusBadRequest_def StatusInternalServerError_def)
qed

lemma run_decoded:
  "\<forall>r \<in> set reqs. on_store S r \<and> decoded r \<Longrightarrow> sentinel_or_absent cfg S \<Longrightarrow>
   run e cfg reqs = Some (resps, cfg') \<Longrightarrow>
   (\<forall>resp \<in> set resps. status resp \<noteq> StatusBadRequest) \<and> sentinel_or_absent cfg' S"
proof (induction reqs arbitrary: cfg resps)
  case Nil
  then show ?case by simp
next
  case (Cons req reqs)
  obtain resp cfg1 where s: "serve e cfg req = Some (resp, cfg1)"
    using Cons.prems(3) by (auto split: option.splits)
  obtain resps1 where r: "run e cfg1 reqs = Some (resps1, cfg')" and rs: "resps = resp # resps1"
    using Cons.prems(3) s by (auto split: option.splits)
  have step: "status resp \<noteq> StatusBadRequest \<and> sentinel_or_absent cfg1 S"
    using serve_decoded [OF _ _ Cons.prems(2) s] Cons.prems(1) by simp
  have "(\<forall>resp \<in> set resps1. status resp \<noteq> StatusBadRequest) \<and> sentinel_or_absent cfg' S"
    using Cons.IH [OF _ _ r] Cons.prems(1) step by simp
  with step rs show ?case by simp
qed

text \<open>
  So for requests that arrive over HTTP the pause/resume balance needs only that the
  requests return and that no pause call of an update is refused.
\<close>

lemma pause_resume_symmetry_decoded:
  assumes "\<forall>r \<in> set reqs. on_store S r \<and> decoded r"
    and "StoreIDWitRanges cfg = Map.empty" and "cluster cfg = []"
    and "run e cfg reqs = Some (resps, cfg')"
    and "pause_refusals e cfg reqs = 0"
  shows "net_pauses (cluster cfg') S = (if StoreIDWitRanges cfg' S \<noteq> None then 1 else 0)"
proof -
  have s0: "sentinel_or_absent cfg S" using assms(2) by (simp add: sentinel_or_absent_def)
  have ok: "\<forall>resp \<in> set resps. status resp \<noteq> StatusBadRequest"
    using run_decoded [OF assms(1) s0 assms(4)] by simp
  have on: "\<forall>r \<in> set reqs. on_store S r" using assms(1) by simp
  show ?thesis
    using run_net [OF on assms(4) ok] assms(2,3,5)
    by (simp add: present_def net_pauses_def)
qed

end
